theory Spec2Isabelle
  imports Main
begin

section \<open>Python values\<close>

text \<open>
  A Python \<open>str\<close> is a sequence of Unicode code points and \<open>len\<close> counts code points,
  so a string is a list of code points here. \<open>ascii\<close> embeds an ASCII literal.
\<close>

type_synonym ustr = "nat list"

definition ascii :: "string \<Rightarrow> ustr" where
  "ascii s = map of_char s"

text \<open>\<open>sub in s\<close> on strings: \<open>sub\<close> occurs in \<open>s\<close> as a contiguous piece.\<close>

fun str_contains :: "ustr \<Rightarrow> ustr \<Rightarrow> bool" where
  "str_contains sub [] = (sub = [])"
| "str_contains sub (c # cs) = (take (length sub) (c # cs) = sub \<or> str_contains sub cs)"

text \<open>
  \<open>str.lower()\<close>, on the ASCII letters. Code points outside \<open>A\<close>..\<open>Z\<close> are left as they
  are (Python also folds the case of letters beyond ASCII; the messages examined below are ASCII).
\<close>

definition str_lower :: "ustr \<Rightarrow> ustr" where
  "str_lower s = map (\<lambda>c. if 65 \<le> c \<and> c \<le> 90 then c + 32 else c) s"

text \<open>\<open>xs[-n:]\<close> for a positive constant \<open>n\<close>: the last \<open>n\<close> elements, all of \<open>xs\<close> when it is shorter.\<close>

definition last_n :: "nat \<Rightarrow> 'a list \<Rightarrow> 'a list" where
  "last_n n xs = drop (length xs - n) xs"

text \<open>The JSON values that are stored in a profile or carried as metadata (floats left out).\<close>

datatype json =
    JNull
  | JBool bool
  | JInt int
  | JStr ustr
  | JList "json list"
  | JDict "(ustr \<times> json) list"

type_synonym pydict = "(ustr \<times> json) list"

text \<open>\<open>d[k] = v\<close>: an existing key keeps its position, a new key goes to the end.\<close>

fun dict_set :: "pydict \<Rightarrow> ustr \<Rightarrow> json \<Rightarrow> pydict" where
  "dict_set [] k v = [(k, v)]"
| "dict_set ((k', v') # d) k v = (if k' = k then (k, v) # d else (k', v') # dict_set d k v)"

text \<open>\<open>d.update(e)\<close>.\<close>

fun dict_update :: "pydict \<Rightarrow> pydict \<Rightarrow> pydict" where
  "dict_update d [] = d"
| "dict_update d ((k, v) # e) = dict_update (dict_set d k v) e"

section \<open>Data model\<close>

type_synonym account = ustr

text \<open>
  A stored message: the dict built by \<open>add_message\<close>. The key \<open>metadata\<close> is present
  only when a non-empty metadata dict was given.
\<close>

record message =
  role :: ustr
  content :: ustr
  timestamp :: ustr
  metadata :: "pydict option"

text \<open>\<open>LegalService.context_config\<close>.\<close>

definition max_history_messages :: nat where
  "max_history_messages = 10"

definition summary_update_threshold :: int where
  "summary_update_threshold = 5"

definition context_token_limit :: int where
  "context_token_limit = 2000"

definition summary_ttl :: int where
  "summary_ttl = 86400"

text \<open>The dict returned by \<open>get_conversation_context\<close>; \<open>user_profile\<close> is an optional key.\<close>

record conv_context =
  history :: "message list"
  summary :: ustr
  strategy :: string
  tokens_used :: int
  user_profile :: "pydict option"

text \<open>One record of the day-bucketed metadata log written by \<open>save_conversation\<close>.\<close>

record turn_metadata =
  tool_calls :: "json list"
  context_used :: conv_context
  md_timestamp :: ustr

record metadata_record =
  mr_timestamp :: ustr
  mr_user_input :: ustr
  mr_agent_response_length :: nat
  mr_metadata :: turn_metadata

section \<open>The key-value store\<close>

text \<open>
  The Redis keys of the service form six families, \<open>chat_history:<account>\<close>,
  \<open>chat_summary:<account>\<close>, \<open>summary_hash:<account>\<close>, \<open>user_profile:<account>\<close>,
  \<open>conv_count:<account>\<close> and \<open>conv_metadata:<account>:<session>\<close>. No prefix is a prefix of
  another, so the families never share a key and each is a map of its own, holding the
  decoded value. A key written by \<open>setex\<close> carries its remaining time to live in seconds;
  a key that has expired is absent. \<open>llm_calls\<close> counts the invocations of the service's
  language model, \<open>clock\<close> the reads of \<open>datetime.now()\<close>.
\<close>

record state =
  chat_history_key :: "account \<rightharpoonup> message list"
  chat_summary_key :: "account \<rightharpoonup> ustr \<times> int"
  summary_hash_key :: "account \<rightharpoonup> ustr \<times> int"
  user_profile_key :: "account \<rightharpoonup> pydict \<times> int"
  conv_count_key :: "account \<rightharpoonup> int"
  conv_metadata_key :: "account \<times> ustr \<rightharpoonup> metadata_record list \<times> int"
  llm_calls :: nat
  clock :: nat

text \<open>\<open>redis.get\<close> of a \<open>setex\<close> key, and \<open>redis.ttl\<close> (\<open>-2\<close> for an absent key).\<close>

definition redis_get :: "('v \<times> int) option \<Rightarrow> 'v option" where
  "redis_get e = (case e of None \<Rightarrow> None | Some (v, t) \<Rightarrow> Some v)"

definition redis_ttl :: "('v \<times> int) option \<Rightarrow> int" where
  "redis_ttl e = (case e of None \<Rightarrow> - 2 | Some (v, t) \<Rightarrow> t)"

text \<open>Truthiness of an optional string, and \<open>x or ""\<close>.\<close>

definition str_truthy :: "ustr option \<Rightarrow> bool" where
  "str_truthy x = (case x of None \<Rightarrow> False | Some t \<Rightarrow> t \<noteq> [])"

definition or_empty :: "ustr option \<Rightarrow> ustr" where
  "or_empty x = (case x of None \<Rightarrow> [] | Some t \<Rightarrow> t)"

section \<open>The environment\<close>

text \<open>
  What the service calls but does not define. \<open>llm n p\<close> is the content of the model's
  answer to the \<open>n\<close>-th invocation, made with prompt \<open>p\<close>, or \<open>None\<close> when the invocation
  raises. \<open>md5_json\<close> is \<open>hashlib.md5(json.dumps(messages).encode()).hexdigest()\<close>.
  \<open>now_iso n\<close> and \<open>now_day n\<close> are \<open>isoformat()\<close> and \<open>strftime("%Y%m%d")\<close> of the \<open>n\<close>-th
  clock read. \<open>parse_profile\<close> is \<open>json.loads\<close> of the model's profile answer, \<open>None\<close> when it
  raises or yields no dict.
\<close>

datatype prompt = SummaryPrompt "message list" | ProfilePrompt "message list"

record env =
  llm :: "nat \<Rightarrow> prompt \<Rightarrow> ustr option"
  md5_json :: "message list \<Rightarrow> ustr"
  now_iso :: "nat \<Rightarrow> ustr"
  now_day :: "nat \<Rightarrow> ustr"
  parse_profile :: "ustr \<Rightarrow> pydict option"

section \<open>ConversationStore: \<open>LegalService\<close> history operations\<close>

definition save_chat_history :: "state \<Rightarrow> account \<Rightarrow> message list \<Rightarrow> state" where
  "save_chat_history s account_id messages =
     (let messages' = (if length messages > max_history_messages
                       then last_n max_history_messages messages else messages)
      in s\<lparr>chat_history_key := (chat_history_key s)(account_id \<mapsto> messages')\<rparr>)"

definition get_chat_history :: "state \<Rightarrow> account \<Rightarrow> message list" where
  "get_chat_history s account_id =
     (case chat_history_key s account_id of Some messages \<Rightarrow> messages | None \<Rightarrow> [])"

definition dict_truthy :: "pydict option \<Rightarrow> bool" where
  "dict_truthy m = (case m of None \<Rightarrow> False | Some d \<Rightarrow> d \<noteq> [])"

definition message_data :: "ustr \<Rightarrow> ustr \<Rightarrow> ustr \<Rightarrow> pydict option \<Rightarrow> message" where
  "message_data r c ts md =
     \<lparr>role = r, content = c, timestamp = ts,
      metadata = (if dict_truthy md then md else None)\<rparr>"

definition add_message ::
  "env \<Rightarrow> state \<Rightarrow> account \<Rightarrow> ustr \<Rightarrow> ustr \<Rightarrow> pydict option \<Rightarrow> state" where
  "add_message e s account_id r c md =
     (let messages = get_chat_history s account_id;
          m = message_data r c (now_iso e (clock s)) md
      in save_chat_history (s\<lparr>clock := clock s + 1\<rparr>) account_id (messages @ [m]))"

definition save_chat_messages :: "env \<Rightarrow> state \<Rightarrow> account \<Rightarrow> ustr \<Rightarrow> ustr \<Rightarrow> state" where
  "save_chat_messages e s account_id user_message assistant_message =
     (let s1 = add_message e s account_id (ascii ''user'') user_message None
      in add_message e s1 account_id (ascii ''assistant'') assistant_message None)"

definition clear_chat_history :: "state \<Rightarrow> account \<Rightarrow> state" where
  "clear_chat_history s account_id =
     s\<lparr>chat_history_key := (chat_history_key s)(account_id := None),
       chat_summary_key := (chat_summary_key s)(account_id := None)\<rparr>"

section \<open>SummaryEngine: \<open>LegalService.generate_summary\<close>\<close>

text \<open>
  Every exception raised inside is caught and turned into the empty string; the only
  modelled source of one is the model invocation.
\<close>

definition generate_summary :: "env \<Rightarrow> state \<Rightarrow> account \<Rightarrow> ustr \<times> state" where
  "generate_summary e s account_id =
     (let cached_summary = redis_get (chat_summary_key s account_id) in
      if str_truthy cached_summary \<and> redis_ttl (chat_summary_key s account_id) > 0
      then (or_empty cached_summary, s)
      else
        let messages = get_chat_history s account_id in
        if messages = [] then ([], s)
        else
          let messages_hash = md5_json e messages;
              last_hash = redis_get (summary_hash_key s account_id) in
          if last_hash = Some messages_hash then (or_empty cached_summary, s)
          else
            (case llm e (llm_calls s) (SummaryPrompt messages) of
               None \<Rightarrow> ([], s\<lparr>llm_calls := llm_calls s + 1\<rparr>)
             | Some new_summary \<Rightarrow>
                 (new_summary,
                  s\<lparr>chat_summary_key :=
                      (chat_summary_key s)(account_id \<mapsto> (new_summary, summary_ttl)),
                    summary_hash_key :=
                      (summary_hash_key s)(account_id \<mapsto> (messages_hash, summary_ttl)),
                    llm_calls := llm_calls s + 1\<rparr>)))"


section \<open>ProfileEngine: \<open>LegalService.get_user_profile\<close>\<close>

definition default_profile :: "ustr \<Rightarrow> pydict" where
  "default_profile ts =
     [(ascii ''preferred_language'', JStr (ascii ''zh-CN'')),
      (ascii ''legal_interests'', JList []),
      (ascii ''conversation_style'', JStr (ascii ''formal'')),
      (ascii ''last_active'', JStr ts),
      (ascii ''total_conversations'', JInt 0)]"

definition profile_ttl :: int where
  "profile_ttl = 86400 * 7"

text \<open>
  A stored profile is returned as it is. Otherwise the defaults are built, refined by one
  model invocation when there is history (a failure of the invocation or of the parse
  keeps the defaults), and stored for seven days.
\<close>

definition get_user_profile :: "env \<Rightarrow> state \<Rightarrow> account \<Rightarrow> pydict \<times> state" where
  "get_user_profile e s account_id =
     (case redis_get (user_profile_key s account_id) of
        Some profile_data \<Rightarrow> (profile_data, s)
      | None \<Rightarrow>
          let dp = default_profile (now_iso e (clock s));
              s1 = s\<lparr>clock := clock s + 1\<rparr>;
              messages = get_chat_history s1 account_id;
              (dp', s2) =
                (if messages \<noteq> [] then
                   (case llm e (llm_calls s1) (ProfilePrompt messages) of
                      None \<Rightarrow> (dp, s1\<lparr>llm_calls := llm_calls s1 + 1\<rparr>)
                    | Some answer \<Rightarrow>
                        ((case parse_profile e answer of
                            None \<Rightarrow> dp
                          | Some extracted_profile \<Rightarrow> dict_update dp extracted_profile),
                         s1\<lparr>llm_calls := llm_calls s1 + 1\<rparr>))
                 else (dp, s1))
          in (dp', s2\<lparr>user_profile_key :=
                        (user_profile_key s2)(account_id \<mapsto> (dp', profile_ttl))\<rparr>))"

text \<open>
  \<open>profile.get("total_conversations", 0) + 1\<close>: \<open>None\<close> when the stored value is not a
  number and the addition raises \<open>TypeError\<close>.
\<close>

definition bump_total :: "pydict \<Rightarrow> int option" where
  "bump_total profile =
     (case map_of profile (ascii ''total_conversations'') of
        None \<Rightarrow> Some 1
      | Some (JInt n) \<Rightarrow> Some (n + 1)
      | Some (JBool b) \<Rightarrow> Some (if b then 2 else 1)
      | Some other \<Rightarrow> None)"

text \<open>\<open>_update_user_profile_stats\<close>: an exception is logged and dropped.\<close>

definition update_user_profile_stats :: "env \<Rightarrow> state \<Rightarrow> account \<Rightarrow> state" where
  "update_user_profile_stats e s account_id =
     (let (profile, s1) = get_user_profile e s account_id in
      case bump_total profile of
        None \<Rightarrow> s1
      | Some n \<Rightarrow>
          let profile1 = dict_set profile (ascii ''total_conversations'') (JInt n);
              profile2 = dict_set profile1 (ascii ''last_active'') (JStr (now_iso e (clock s1)));
              s2 = s1\<lparr>clock := clock s1 + 1\<rparr>
          in s2\<lparr>user_profile_key :=
                  (user_profile_key s2)(account_id \<mapsto> (profile2, profile_ttl))\<rparr>)"

section \<open>ContextAssembler: \<open>LegalService.get_conversation_context\<close>\<close>

text \<open>
  The summary is generated before the strategy is looked at. An unknown strategy leaves
  history and summary empty. \<open>max_tokens\<close> is accepted and not used.
\<close>

definition get_conversation_context ::
  "env \<Rightarrow> state \<Rightarrow> account \<Rightarrow> string \<Rightarrow> int \<Rightarrow> conv_context \<times> state" where
  "get_conversation_context e s account_id strat max_tokens =
     (let ctx = \<lparr>history = [], summary = [], strategy = strat, tokens_used = 0,
                 user_profile = None\<rparr>;
          messages = get_chat_history s account_id;
          (summ, s1) = generate_summary e s account_id;
          ctx1 =
            (if strat = ''full'' then ctx\<lparr>history := messages\<rparr>
             else if strat = ''summary'' then ctx\<lparr>summary := summ\<rparr>
             else if strat = ''hybrid'' then
               (if length messages > 3
                then ctx\<lparr>history := last_n 3 messages, summary := summ\<rparr>
                else ctx\<lparr>history := messages\<rparr>)
             else if strat = ''window'' then
               ctx\<lparr>history := (if length messages > 5 then last_n 5 messages else messages)\<rparr>
             else ctx);
          (profile, s2) = get_user_profile e s1 account_id;
          ctx2 = (if profile \<noteq> [] then ctx1\<lparr>user_profile := Some profile\<rparr> else ctx1)
      in (ctx2, s2))"

section \<open>Persistence of a turn: \<open>LegalService.save_conversation\<close>\<close>

definition metadata_ttl :: int where
  "metadata_ttl = 86400 * 30"

text \<open>
  The metadata given by the orchestrator is a dict of three entries, so it is truthy
  whenever it is given; it is taken to be JSON-serialisable.
\<close>

definition save_conversation ::
  "env \<Rightarrow> state \<Rightarrow> account \<Rightarrow> ustr \<Rightarrow> ustr \<Rightarrow> turn_metadata option \<Rightarrow> state" where
  "save_conversation e s account_id user_input agent_response md =
     (let s1 = save_chat_messages e s account_id user_input agent_response;
          s2 =
            (case md of
               None \<Rightarrow> s1
             | Some m \<Rightarrow>
                 let session_id = now_day e (clock s1);
                     metadata_list =
                       (case redis_get (conv_metadata_key s1 (account_id, session_id)) of
                          Some l \<Rightarrow> l | None \<Rightarrow> []);
                     metadata_rec =
                       \<lparr>mr_timestamp = now_iso e (clock s1 + 1),
                        mr_user_input = take 100 user_input,
                        mr_agent_response_length = length agent_response,
                        mr_metadata = m\<rparr>;
                     l1 = metadata_list @ [metadata_rec];
                     l2 = (if length l1 > 100 then last_n 100 l1 else l1)
                 in s1\<lparr>conv_metadata_key :=
                         (conv_metadata_key s1)((account_id, session_id) \<mapsto> (l2, metadata_ttl)),
                       clock := clock s1 + 2\<rparr>)
      in update_user_profile_stats e s2 account_id)"

section \<open>Summary cadence: \<open>LegalService.update_conversation_summary\<close>\<close>

text \<open>
  \<open>redis.incr\<close>: an absent key counts from 0; the increment of the largest signed 64-bit
  value is refused with an error (\<open>None\<close>), which the caller catches.
\<close>

definition redis_incr :: "int option \<Rightarrow> int option" where
  "redis_incr v =
     (case v of
        None \<Rightarrow> Some 1
      | Some n \<Rightarrow> if n \<ge> 2 ^ 63 - 1 then None else Some (n + 1))"

definition update_conversation_summary ::
  "env \<Rightarrow> state \<Rightarrow> account \<Rightarrow> bool \<Rightarrow> ustr \<times> state" where
  "update_conversation_summary e s account_id force =
     (case redis_incr (conv_count_key s account_id) of
        None \<Rightarrow> ([], s)
      | Some conversation_count \<Rightarrow>
          let s1 = s\<lparr>conv_count_key := (conv_count_key s)(account_id \<mapsto> conversation_count)\<rparr> in
          if force \<or> conversation_count mod summary_update_threshold = 0 then
            let (summ, s2) = generate_summary e s1 account_id;
                s3 = (if conversation_count \<ge> 100
                      then s2\<lparr>conv_count_key := (conv_count_key s2)(account_id \<mapsto> 0)\<rparr>
                      else s2)
            in (summ, s3)
          else (or_empty (redis_get (chat_summary_key s1 account_id)), s1))"

section \<open>ConversationOrchestrator: \<open>chat_with_legal_agent\<close>\<close>

text \<open>
  The agent is external. Given its input it produces chunks, each a dict read by its first
  matching key (\<open>output\<close>, then \<open>intermediate_steps\<close>, then \<open>error\<close>), and then either
  ends, raises \<open>asyncio.TimeoutError\<close>, or raises another exception \<open>e\<close>, kept as \<open>str(e)\<close>.
\<close>

record agent_input =
  ai_input :: ustr
  ai_chat_history :: "message list"
  ai_summary :: ustr
  ai_user_profile :: pydict

datatype chunk = Output ustr | IntermediateSteps json | ErrorChunk ustr | OtherChunk

datatype agent_end = Exhausted | RaisedTimeout | RaisedException ustr

type_synonym agent_executor = "agent_input \<Rightarrow> chunk list \<times> agent_end"

text \<open>
  What \<open>asyncio.create_task\<close> is given: the detached work of a turn. A generator either
  returns or lets an exception escape to its consumer.
\<close>

datatype task =
    SaveConversation account ustr ustr turn_metadata
  | UpdateConversationSummary account

datatype py_error = TypeError

datatype gen_end = Returned | Raised py_error

record turn =
  yielded :: "ustr list"
  ending :: gen_end
  scheduled :: "task list"
  store :: state

fun output_tokens :: "chunk list \<Rightarrow> ustr list" where
  "output_tokens [] = []"
| "output_tokens (Output token # cs) = token # output_tokens cs"
| "output_tokens (c # cs) = output_tokens cs"

fun intermediate_steps :: "chunk list \<Rightarrow> json list" where
  "intermediate_steps [] = []"
| "intermediate_steps (IntermediateSteps st # cs) = st # intermediate_steps cs"
| "intermediate_steps (c # cs) = intermediate_steps cs"

text \<open>The four user-visible messages of the error paths, as code points.\<close>

definition timeout_message :: ustr where
  "timeout_message =
     [25265, 27465, 65292, 24605, 32771, 26102, 38388, 36807, 38271, 65292,
      35831, 31616, 21270, 24744, 30340, 38382, 39064, 37325, 35797, 12290]"

definition failed_message :: ustr where
  "failed_message = [23545, 35805, 22833, 36133, 65292, 35831, 31245, 21518, 20877, 35797]"

definition busy_message :: ustr where
  "busy_message = [26381, 21153, 32321, 24537, 65292, 35831, 31245, 21518, 37325, 35797]"

definition new_session_message :: ustr where
  "new_session_message =
     [23545, 35805, 21382, 21490, 36807, 38271, 65292, 24050, 24320, 21551, 26032, 20250, 35805]"

text \<open>
  One turn, with no \<open>stream_callback\<close> (its only caller passes none). Tokens are yielded
  as the chunks arrive, so the tokens of the chunks that precede an exception have been
  yielded when the handler runs. In the handler of a context-length failure,
  \<open>clear_chat_history\<close> is an ordinary method: the call runs at once and returns \<open>None\<close>,
  and \<open>asyncio.create_task(None)\<close> raises \<open>TypeError\<close>, which leaves the generator before
  the message is yielded.
\<close>

definition chat_with_legal_agent ::
  "env \<Rightarrow> agent_executor \<Rightarrow> state \<Rightarrow> account \<Rightarrow> ustr \<Rightarrow> turn" where
  "chat_with_legal_agent e agent s account_id input_text =
     (let (ctx, s1) = get_conversation_context e s account_id ''hybrid'' 1000;
          (profile, s2) = get_user_profile e s1 account_id;
          agent_in = \<lparr>ai_input = input_text, ai_chat_history = history ctx,
                      ai_summary = summary ctx, ai_user_profile = profile\<rparr>;
          (chunks, fin) = agent agent_in;
          full_response = output_tokens chunks;
          tool_calls_log = intermediate_steps chunks
      in case fin of
           Exhausted \<Rightarrow>
             if full_response \<noteq> [] then
               \<lparr>yielded = full_response, ending = Returned,
                scheduled =
                  [SaveConversation account_id input_text (concat full_response)
                     \<lparr>tool_calls = tool_calls_log, context_used = ctx,
                      md_timestamp = now_iso e (clock s2)\<rparr>,
                   UpdateConversationSummary account_id],
                store = s2\<lparr>clock := clock s2 + 1\<rparr>\<rparr>
             else \<lparr>yielded = [], ending = Returned, scheduled = [], store = s2\<rparr>
         | RaisedTimeout \<Rightarrow>
             \<lparr>yielded = full_response @ [timeout_message], ending = Returned,
              scheduled = [], store = s2\<rparr>
         | RaisedException err \<Rightarrow>
             if str_contains (ascii ''rate limit'') (str_lower err) then
               \<lparr>yielded = full_response @ [busy_message], ending = Returned,
                scheduled = [], store = s2\<rparr>
             else if str_contains (ascii ''context length'') (str_lower err) then
               \<lparr>yielded = full_response, ending = Raised TypeError,
                scheduled = [], store = clear_chat_history s2 account_id\<rparr>
             else
               \<lparr>yielded = full_response @ [failed_message], ending = Returned,
                scheduled = [], store = s2\<rparr>)"

text \<open>The detached tasks, run to completion in the order they were created.\<close>

fun run_task :: "env \<Rightarrow> state \<Rightarrow> task \<Rightarrow> state" where
  "run_task e s (SaveConversation account_id user_input agent_response md) =
     save_conversation e s account_id user_input agent_response (Some md)"
| "run_task e s (UpdateConversationSummary account_id) =
     snd (update_conversation_summary e s account_id False)"

definition run_scheduled :: "env \<Rightarrow> turn \<Rightarrow> state" where
  "run_scheduled e t = foldl (run_task e) (store t) (scheduled t)"

section \<open>Wire format: \<open>JsonData\<close> and \<open>generate_stream_response\<close>\<close>

datatype response_type = Stream | Text

record JsonData =
  code :: int
  data :: "ustr option"
  msg :: "ustr option"
  type :: response_type

definition stream_data :: "ustr \<Rightarrow> JsonData" where
  "stream_data d = \<lparr>code = 0, data = Some d, msg = Some [], type = Stream\<rparr>"

definition punctuation :: "ustr list" where
  "punctuation = [[12290], [65311], [65281], [65307], [65292]]"

text \<open>
  The loop over the tokens: the frames emitted so far and the chunk still held back when
  the tokens run out.
\<close>

fun coalesce :: "ustr \<Rightarrow> ustr list \<Rightarrow> JsonData list \<times> ustr" where
  "coalesce current_chunk [] = ([], current_chunk)"
| "coalesce current_chunk (token # tokens) =
     (let c = current_chunk @ token in
      if token \<in> set punctuation \<or> length c \<ge> 10
      then (let (fs, r) = coalesce [] tokens in (stream_data c # fs, r))
      else coalesce c tokens)"

text \<open>
  The payloads sent for a token sequence: the held-back chunk is flushed only when the
  token generator returned; an exception that escapes it ends the response at once.
\<close>

definition stream_payloads :: "ustr list \<Rightarrow> gen_end \<Rightarrow> JsonData list" where
  "stream_payloads tokens fin =
     (let (fs, r) = coalesce [] tokens in
      case fin of
        Raised x \<Rightarrow> fs
      | Returned \<Rightarrow> fs @ (if r \<noteq> [] then [stream_data r] else []))"

text \<open>\<open>model_dump_json\<close> is pydantic's and is taken as the parameter \<open>dump\<close>.\<close>

definition sse_frame :: "(JsonData \<Rightarrow> ustr) \<Rightarrow> JsonData \<Rightarrow> ustr" where
  "sse_frame dump j = ascii ''data: '' @ dump j @ [10, 10]"

definition done_frame :: ustr where
  "done_frame = ascii ''data: [DONE]'' @ [10, 10]"

definition sse_stream :: "(JsonData \<Rightarrow> ustr) \<Rightarrow> ustr list \<Rightarrow> gen_end \<Rightarrow> ustr list" where
  "sse_stream dump tokens fin =
     map (sse_frame dump) (stream_payloads tokens fin)
     @ (case fin of Returned \<Rightarrow> [done_frame] | Raised x \<Rightarrow> [])"

definition generate_stream_response ::
  "(JsonData \<Rightarrow> ustr) \<Rightarrow> env \<Rightarrow> agent_executor \<Rightarrow> state \<Rightarrow> account \<Rightarrow> ustr
     \<Rightarrow> ustr list \<times> gen_end" where
  "generate_stream_response dump e agent s account_id input_text =
     (let t = chat_with_legal_agent e agent s account_id input_text
      in (sse_stream dump (yielded t) (ending t), ending t))"

section \<open>Vocabulary of the statements\<close>

text \<open>
  The two tests of \<open>generate_summary\<close>: a non-empty cached summary with time to live
  left, and a stored hash equal to the hash of the history as it is now.
\<close>

definition cache_fresh :: "state \<Rightarrow> account \<Rightarrow> bool" where
  "cache_fresh s a =
     (str_truthy (redis_get (chat_summary_key s a)) \<and> redis_ttl (chat_summary_key s a) > 0)"

definition hash_current :: "env \<Rightarrow> state \<Rightarrow> account \<Rightarrow> bool" where
  "hash_current e s a =
     (redis_get (summary_hash_key s a) = Some (md5_json e (get_chat_history s a)))"

text \<open>A run of \<open>add_message\<close> calls for one account, each a role and a content.\<close>

fun add_messages :: "env \<Rightarrow> state \<Rightarrow> account \<Rightarrow> (ustr \<times> ustr) list \<Rightarrow> state" where
  "add_messages e s a [] = s"
| "add_messages e s a ((r, c) # ops) = add_messages e (add_message e s a r c None) a ops"

text \<open>The input that \<open>chat_with_legal_agent\<close> hands to the agent.\<close>

definition turn_agent_input :: "env \<Rightarrow> state \<Rightarrow> account \<Rightarrow> ustr \<Rightarrow> agent_input" where
  "turn_agent_input e s account_id input_text =
     (let (ctx, s1) = get_conversation_context e s account_id ''hybrid'' 1000;
          (profile, s2) = get_user_profile e s1 account_id
      in \<lparr>ai_input = input_text, ai_chat_history = history ctx,
          ai_summary = summary ctx, ai_user_profile = profile\<rparr>)"

text \<open>The state in which the agent is invoked: after context assembly and profile fetch.\<close>

definition turn_assembled :: "env \<Rightarrow> state \<Rightarrow> account \<Rightarrow> state" where
  "turn_assembled e s account_id =
     snd (get_user_profile e
            (snd (get_conversation_context e s account_id ''hybrid'' 1000)) account_id)"

text \<open>
  The re-chunker as the specification words it: a frame goes out when the accumulated
  chunk ends in a punctuation mark or has reached 10 code points.
\<close>

definition ends_in_punctuation :: "ustr \<Rightarrow> bool" where
  "ends_in_punctuation c = (c \<noteq> [] \<and> [last c] \<in> set punctuation)"

fun coalesce_spec :: "ustr \<Rightarrow> ustr list \<Rightarrow> JsonData list \<times> ustr" where
  "coalesce_spec current_chunk [] = ([], current_chunk)"
| "coalesce_spec current_chunk (token # tokens) =
     (let c = current_chunk @ token in
      if ends_in_punctuation c \<or> length c \<ge> 10
      then (let (fs, r) = coalesce_spec [] tokens in (stream_data c # fs, r))
      else coalesce_spec c tokens)"

definition stream_payloads_spec :: "ustr list \<Rightarrow> JsonData list" where
  "stream_payloads_spec tokens =
     (let (fs, r) = coalesce_spec [] tokens in fs @ (if r \<noteq> [] then [stream_data r] else []))"

section \<open>Concrete inputs\<close>

definition alice :: account where
  "alice = ascii ''alice''"

text \<open>A stand-in for the digest, injective on the histories used below.\<close>

definition digest :: "message list \<Rightarrow> ustr" where
  "digest ms = concat (map (\<lambda>m. role m @ [58] @ content m @ [58] @ timestamp m @ [59]) ms)"

text \<open>A model that always answers \<open>S\<close>, a frozen clock, and a model whose first call fails.\<close>

definition ex_env :: env where
  "ex_env = \<lparr>llm = (\<lambda>n p. Some (ascii ''S'')), md5_json = digest,
             now_iso = (\<lambda>n. ascii ''t''), now_day = (\<lambda>n. ascii ''d''),
             parse_profile = (\<lambda>c. None)\<rparr>"

definition flaky_env :: env where
  "flaky_env = ex_env\<lparr>llm := (\<lambda>n p. if n = 0 then None else Some (ascii ''S''))\<rparr>"

definition empty_state :: state where
  "empty_state = \<lparr>chat_history_key = Map.empty, chat_summary_key = Map.empty,
      summary_hash_key = Map.empty, user_profile_key = Map.empty,
      conv_count_key = Map.empty, conv_metadata_key = Map.empty,
      llm_calls = 0, clock = 0\<rparr>"

definition msg_q :: message where
  "msg_q = message_data (ascii ''user'') (ascii ''Q'') (ascii ''t'') None"

definition msg_r :: message where
  "msg_r = message_data (ascii ''assistant'') (ascii ''R'') (ascii ''t'') None"

text \<open>One message of history and nothing else stored.\<close>

definition asked_state :: state where
  "asked_state = empty_state\<lparr>chat_history_key := [alice \<mapsto> [msg_q]]\<rparr>"

text \<open>A cached summary with time to live left, and a stored hash that is not the history's.\<close>

definition stale_state :: state where
  "stale_state = asked_state
     \<lparr>chat_summary_key := [alice \<mapsto> (ascii ''old'', 100)],
      summary_hash_key := [alice \<mapsto> (ascii ''h0'', 100)]\<rparr>"

text \<open>No cached summary, and a stored hash that is the history's.\<close>

definition hashed_state :: state where
  "hashed_state = asked_state\<lparr>summary_hash_key := [alice \<mapsto> (digest [msg_q], 100)]\<rparr>"

text \<open>A summarised conversation of two messages.\<close>

definition summarised_state :: state where
  "summarised_state = empty_state
     \<lparr>chat_history_key := [alice \<mapsto> [msg_q, msg_r]],
      chat_summary_key := [alice \<mapsto> (ascii ''S'', 100)],
      summary_hash_key := [alice \<mapsto> (digest [msg_q, msg_r], 100)]\<rparr>"

text \<open>The fifth turn of an account whose summary is cached: the counter stands at 4.\<close>

definition fifth_turn_state :: state where
  "fifth_turn_state = stale_state\<lparr>conv_count_key := [alice \<mapsto> 4]\<rparr>"

text \<open>Five messages of history, and the profile already stored.\<close>

definition long_state :: state where
  "long_state = empty_state
     \<lparr>chat_history_key := [alice \<mapsto> [msg_q, msg_r, msg_q, msg_r, msg_q]],
      user_profile_key := [alice \<mapsto> (default_profile (ascii ''t''), 100)]\<rparr>"

text \<open>
  Three agents: one that stalls and times out before any chunk, one that times out after
  a first output chunk, and one whose provider refuses the prompt as too long.
\<close>

definition stalled_agent :: agent_executor where
  "stalled_agent x = ([], RaisedTimeout)"

definition late_timeout_agent :: agent_executor where
  "late_timeout_agent x = ([Output (ascii ''A'')], RaisedTimeout)"

definition overflow_agent :: agent_executor where
  "overflow_agent x = ([], RaisedException (ascii ''context length exceeded''))"

text \<open>A stand-in for \<open>model_dump_json\<close> that prints the data alone.\<close>

definition dump_data :: "JsonData \<Rightarrow> ustr" where
  "dump_data j = or_empty (data j)"

section \<open>Properties of the store\<close>

lemma length_last_n: "length (last_n n xs) = min n (length xs)"
  by (simp add: last_n_def)

lemma get_chat_history_save:
  "get_chat_history (save_chat_history s a ms) a =
     (if length ms > max_history_messages then last_n max_history_messages ms else ms)"
  by (simp add: get_chat_history_def save_chat_history_def Let_def)

text \<open>
  C5. After an append, whatever the state before it, the history read back is the last
  \<open>max_history_messages = 10\<close> entries of the old history followed by the new message:
  it has at most 10 entries, the oldest are the ones dropped, and the order is kept.
\<close>

theorem add_message_bounded:
  "length (get_chat_history (add_message e s a r c md) a) \<le> max_history_messages
   \<and> max_history_messages = 10
   \<and> get_chat_history (add_message e s a r c md) a =
       last_n 10 (get_chat_history s a @ [message_data r c (now_iso e (clock s)) md])"
proof -
  let ?ms = "get_chat_history s a @ [message_data r c (now_iso e (clock s)) md]"
  have hist: "get_chat_history (s\<lparr>clock := clock s + 1\<rparr>) a = get_chat_history s a"
    by (simp add: get_chat_history_def)
  have read: "get_chat_history (add_message e s a r c md) a =
      (if length ?ms > max_history_messages then last_n max_history_messages ?ms else ?ms)"
    by (simp add: add_message_def Let_def get_chat_history_save)
  have same: "(if length ?ms > max_history_messages then last_n max_history_messages ?ms else ?ms)
      = last_n 10 ?ms"
    by (simp add: last_n_def max_history_messages_def)
  have len: "length (last_n 10 ?ms) \<le> max_history_messages"
    by (simp add: length_last_n max_history_messages_def)
  from read same len show ?thesis
    by (simp add: max_history_messages_def)
qed

lemmas ex_defs = ex_env_def flaky_env_def empty_state_def asked_state_def stale_state_def
  hashed_state_def summarised_state_def msg_q_def msg_r_def message_data_def digest_def
  dict_truthy_def

lemmas redis_defs = redis_get_def redis_ttl_def str_truthy_def or_empty_def

lemma generate_summary_fresh:
  "cache_fresh s a \<Longrightarrow>
     generate_summary e s a = (or_empty (redis_get (chat_summary_key s a)), s)"
  by (simp add: generate_summary_def cache_fresh_def Let_def)

lemma generate_summary_same_hash:
  "\<not> cache_fresh s a \<Longrightarrow> get_chat_history s a \<noteq> [] \<Longrightarrow> hash_current e s a \<Longrightarrow>
     generate_summary e s a = (or_empty (redis_get (chat_summary_key s a)), s)"
  by (simp add: generate_summary_def cache_fresh_def hash_current_def Let_def)

lemma generate_summary_no_history:
  "\<not> cache_fresh s a \<Longrightarrow> get_chat_history s a = [] \<Longrightarrow> generate_summary e s a = ([], s)"
  by (auto simp add: generate_summary_def cache_fresh_def Let_def)

lemma generate_summary_miss:
  "\<not> cache_fresh s a \<Longrightarrow> get_chat_history s a \<noteq> [] \<Longrightarrow> \<not> hash_current e s a \<Longrightarrow>
     generate_summary e s a =
       (case llm e (llm_calls s) (SummaryPrompt (get_chat_history s a)) of
          None \<Rightarrow> ([], s\<lparr>llm_calls := llm_calls s + 1\<rparr>)
        | Some new_summary \<Rightarrow>
            (new_summary,
             s\<lparr>chat_summary_key := (chat_summary_key s)(a \<mapsto> (new_summary, summary_ttl)),
               summary_hash_key :=
                 (summary_hash_key s)(a \<mapsto> (md5_json e (get_chat_history s a), summary_ttl)),
               llm_calls := llm_calls s + 1\<rparr>))"
  by (auto simp add: generate_summary_def cache_fresh_def hash_current_def Let_def)

lemma generate_summary_hit:
  "cache_fresh s a \<or> get_chat_history s a = [] \<or> hash_current e s a \<Longrightarrow>
     snd (generate_summary e s a) = s"
  by (auto simp add: generate_summary_def cache_fresh_def hash_current_def Let_def)

lemma generate_summary_calls:
  "llm_calls (snd (generate_summary e s a)) =
     (if cache_fresh s a \<or> get_chat_history s a = [] \<or> hash_current e s a
      then llm_calls s else llm_calls s + 1)"
  by (simp add: generate_summary_def cache_fresh_def hash_current_def Let_def split: option.splits)

text \<open>
  A cached summary with time to live left is returned, with no model invocation, although
  the stored hash is not the hash of the history.
\<close>

theorem generate_summary_stale_hit_counterexample:
  "generate_summary ex_env stale_state alice = (ascii ''old'', stale_state)
   \<and> llm_calls (snd (generate_summary ex_env stale_state alice)) = llm_calls stale_state
   \<and> redis_get (summary_hash_key stale_state alice)
       \<noteq> Some (md5_json ex_env (get_chat_history stale_state alice))"
  by (simp add: generate_summary_def ex_defs redis_defs get_chat_history_def ascii_def Let_def)

text \<open>
  C2, as the code has it. A non-empty cached summary with time to live left is returned at
  once, whatever the stored hash. The hash is compared only when there is no such summary
  and the history is not empty; an equal hash then returns the cached text, or the empty
  text. The model is invoked in none of these cases and in every other one: it is left
  alone exactly when the cache is fresh, the history is empty or the hash is current.
\<close>

theorem generate_summary_cache_rule:
  "(cache_fresh s a \<longrightarrow>
      generate_summary e s a = (or_empty (redis_get (chat_summary_key s a)), s))
   \<and> (\<not> cache_fresh s a \<and> get_chat_history s a \<noteq> [] \<and> hash_current e s a \<longrightarrow>
      generate_summary e s a = (or_empty (redis_get (chat_summary_key s a)), s))
   \<and> (llm_calls (snd (generate_summary e s a)) = llm_calls s
        \<longleftrightarrow> cache_fresh s a \<or> get_chat_history s a = [] \<or> hash_current e s a)"
  by (simp add: generate_summary_fresh generate_summary_same_hash generate_summary_calls)

lemma stale_state_fresh: "cache_fresh stale_state alice"
  by (simp add: cache_fresh_def ex_defs redis_defs ascii_def)

lemma hashed_state_facts:
  "\<not> cache_fresh hashed_state alice" "get_chat_history hashed_state alice \<noteq> []"
  "hash_current ex_env hashed_state alice"
  by (simp_all add: cache_fresh_def hash_current_def get_chat_history_def ex_defs redis_defs)

theorem generate_summary_cache_rule_witness:
  "cache_fresh stale_state alice
   \<and> \<not> hash_current ex_env stale_state alice
   \<and> generate_summary ex_env stale_state alice = (ascii ''old'', stale_state)
   \<and> \<not> cache_fresh hashed_state alice \<and> get_chat_history hashed_state alice \<noteq> []
   \<and> hash_current ex_env hashed_state alice
   \<and> generate_summary ex_env hashed_state alice = ([], hashed_state)
   \<and> llm_calls (snd (generate_summary ex_env hashed_state alice)) = llm_calls hashed_state"
proof -
  have stale: "\<not> hash_current ex_env stale_state alice"
    by (simp add: hash_current_def get_chat_history_def ex_defs redis_defs ascii_def)
  have old: "or_empty (redis_get (chat_summary_key stale_state alice)) = ascii ''old''"
    by (simp add: ex_defs redis_defs)
  have none: "or_empty (redis_get (chat_summary_key hashed_state alice)) = []"
    by (simp add: ex_defs redis_defs)
  from generate_summary_cache_rule [of stale_state alice ex_env]
       generate_summary_cache_rule [of hashed_state alice ex_env]
       stale_state_fresh hashed_state_facts stale old none
  show ?thesis by simp
qed

text \<open>
  With a model whose first invocation fails, the first call returns the empty text and
  caches nothing; the second call invokes the model again and returns another text.
\<close>

theorem generate_summary_twice_counterexample:
  "fst (generate_summary flaky_env asked_state alice) = []
   \<and> fst (generate_summary flaky_env (snd (generate_summary flaky_env asked_state alice)) alice)
       = ascii ''S''
   \<and> llm_calls (snd (generate_summary flaky_env
                        (snd (generate_summary flaky_env asked_state alice)) alice))
       = llm_calls asked_state + 2"
  by (simp add: generate_summary_def ex_defs redis_defs get_chat_history_def ascii_def Let_def)

lemma llm_calls_update_tests:
  "cache_fresh (s\<lparr>llm_calls := n\<rparr>) a = cache_fresh s a"
  "get_chat_history (s\<lparr>llm_calls := n\<rparr>) a = get_chat_history s a"
  "hash_current e (s\<lparr>llm_calls := n\<rparr>) a = hash_current e s a"
  by (simp_all add: cache_fresh_def hash_current_def get_chat_history_def)

lemma generate_summary_again:
  assumes "cache_fresh s a \<or> get_chat_history s a = [] \<or> hash_current e s a
           \<or> llm e (llm_calls s) (SummaryPrompt (get_chat_history s a)) \<noteq> None"
  shows "generate_summary e (snd (generate_summary e s a)) a = generate_summary e s a"
proof (cases "cache_fresh s a \<or> get_chat_history s a = [] \<or> hash_current e s a")
  case True
  then have "snd (generate_summary e s a) = s"
    by (rule generate_summary_hit)
  then show ?thesis by simp
next
  case False
  with assms obtain t where t: "llm e (llm_calls s) (SummaryPrompt (get_chat_history s a)) = Some t"
    by auto
  from False have m: "\<not> cache_fresh s a" "get_chat_history s a \<noteq> []" "\<not> hash_current e s a"
    by simp_all
  let ?s' = "s\<lparr>chat_summary_key := (chat_summary_key s)(a \<mapsto> (t, summary_ttl)),
               summary_hash_key :=
                 (summary_hash_key s)(a \<mapsto> (md5_json e (get_chat_history s a), summary_ttl)),
               llm_calls := llm_calls s + 1\<rparr>"
  have first: "generate_summary e s a = (t, ?s')"
    using generate_summary_miss [OF m, of] t by simp
  have second: "generate_summary e ?s' a = (t, ?s')"
    using m(2)
    by (simp add: generate_summary_def redis_defs get_chat_history_def summary_ttl_def Let_def)
  from first second show ?thesis by simp
qed

lemma generate_summary_failed:
  assumes m: "\<not> cache_fresh s a" "get_chat_history s a \<noteq> []" "\<not> hash_current e s a"
    and f: "llm e (llm_calls s) (SummaryPrompt (get_chat_history s a)) = None"
  shows "generate_summary e s a = ([], s\<lparr>llm_calls := llm_calls s + 1\<rparr>)"
    and "llm_calls (snd (generate_summary e (snd (generate_summary e s a)) a)) = llm_calls s + 2"
    and "fst (generate_summary e (snd (generate_summary e s a)) a)
           = or_empty (llm e (llm_calls s + 1) (SummaryPrompt (get_chat_history s a)))"
proof -
  let ?s1 = "s\<lparr>llm_calls := llm_calls s + 1\<rparr>"
  show first: "generate_summary e s a = ([], ?s1)"
    using generate_summary_miss [OF m] f by simp
  have m1: "\<not> cache_fresh ?s1 a" "get_chat_history ?s1 a \<noteq> []" "\<not> hash_current e ?s1 a"
    using m by (simp_all add: llm_calls_update_tests)
  have second: "generate_summary e ?s1 a =
      (case llm e (llm_calls s + 1) (SummaryPrompt (get_chat_history s a)) of
         None \<Rightarrow> ([], ?s1\<lparr>llm_calls := llm_calls s + 2\<rparr>)
       | Some t \<Rightarrow>
           (t, ?s1\<lparr>chat_summary_key := (chat_summary_key s)(a \<mapsto> (t, summary_ttl)),
                   summary_hash_key :=
                     (summary_hash_key s)(a \<mapsto> (md5_json e (get_chat_history s a), summary_ttl)),
                   llm_calls := llm_calls s + 2\<rparr>))"
    using generate_summary_miss [OF m1] by (simp add: llm_calls_update_tests split: option.splits)
  show "llm_calls (snd (generate_summary e (snd (generate_summary e s a)) a)) = llm_calls s + 2"
    using second by (simp add: first split: option.splits)
  show "fst (generate_summary e (snd (generate_summary e s a)) a)
           = or_empty (llm e (llm_calls s + 1) (SummaryPrompt (get_chat_history s a)))"
    using second by (simp add: first or_empty_def split: option.splits)
qed

text \<open>
  C6, as the code has it. When the first of two successive calls does not fail in its model
  invocation (it needs none, or the model answers), the second call returns the same text
  and leaves the state as it found it, so it invokes no model and writes nothing; both
  calls together invoke the model at most once. When the invocation of the first call
  fails, that call returns the empty text and changes nothing but the count of
  invocations: neither summary nor hash is cached, and the second call invokes the model
  again and returns what it answers, or the empty text if it fails again.
\<close>

theorem generate_summary_idempotent:
  "(cache_fresh s a \<or> get_chat_history s a = [] \<or> hash_current e s a
      \<or> llm e (llm_calls s) (SummaryPrompt (get_chat_history s a)) \<noteq> None \<longrightarrow>
      generate_summary e (snd (generate_summary e s a)) a = generate_summary e s a
      \<and> llm_calls (snd (generate_summary e s a)) \<le> llm_calls s + 1)
   \<and> (\<not> cache_fresh s a \<and> get_chat_history s a \<noteq> [] \<and> \<not> hash_current e s a
      \<and> llm e (llm_calls s) (SummaryPrompt (get_chat_history s a)) = None \<longrightarrow>
      generate_summary e s a = ([], s\<lparr>llm_calls := llm_calls s + 1\<rparr>)
      \<and> chat_summary_key (snd (generate_summary e s a)) = chat_summary_key s
      \<and> summary_hash_key (snd (generate_summary e s a)) = summary_hash_key s
      \<and> llm_calls (snd (generate_summary e (snd (generate_summary e s a)) a)) = llm_calls s + 2
      \<and> fst (generate_summary e (snd (generate_summary e s a)) a)
           = or_empty (llm e (llm_calls s + 1) (SummaryPrompt (get_chat_history s a))))"
proof -
  have calls: "llm_calls (snd (generate_summary e s a)) \<le> llm_calls s + 1"
    by (simp add: generate_summary_calls)
  have ok: "generate_summary e (snd (generate_summary e s a)) a = generate_summary e s a"
    if "cache_fresh s a \<or> get_chat_history s a = [] \<or> hash_current e s a
        \<or> llm e (llm_calls s) (SummaryPrompt (get_chat_history s a)) \<noteq> None"
    using that by (rule generate_summary_again)
  have failed: "generate_summary e s a = ([], s\<lparr>llm_calls := llm_calls s + 1\<rparr>)
      \<and> chat_summary_key (snd (generate_summary e s a)) = chat_summary_key s
      \<and> summary_hash_key (snd (generate_summary e s a)) = summary_hash_key s
      \<and> llm_calls (snd (generate_summary e (snd (generate_summary e s a)) a)) = llm_calls s + 2
      \<and> fst (generate_summary e (snd (generate_summary e s a)) a)
           = or_empty (llm e (llm_calls s + 1) (SummaryPrompt (get_chat_history s a)))"
    if m: "\<not> cache_fresh s a" "get_chat_history s a \<noteq> []" "\<not> hash_current e s a"
      and f: "llm e (llm_calls s) (SummaryPrompt (get_chat_history s a)) = None"
    using generate_summary_failed [OF m f] by simp
  from calls ok failed show ?thesis by blast
qed

lemma asked_state_miss:
  "\<not> cache_fresh asked_state alice \<and> get_chat_history asked_state alice \<noteq> []
   \<and> \<not> hash_current e asked_state alice"
  by (simp add: cache_fresh_def hash_current_def get_chat_history_def ex_defs redis_defs)

lemma asked_state_llm:
  "llm ex_env (llm_calls asked_state) (SummaryPrompt (get_chat_history asked_state alice)) \<noteq> None"
  "llm flaky_env (llm_calls asked_state) (SummaryPrompt (get_chat_history asked_state alice)) = None"
  "or_empty (llm flaky_env (llm_calls asked_state + 1)
     (SummaryPrompt (get_chat_history asked_state alice))) = ascii ''S''"
  by (simp_all add: ex_env_def flaky_env_def asked_state_def empty_state_def or_empty_def)

theorem generate_summary_idempotent_witness:
  "llm ex_env (llm_calls asked_state) (SummaryPrompt (get_chat_history asked_state alice)) \<noteq> None
   \<and> generate_summary ex_env (snd (generate_summary ex_env asked_state alice)) alice
       = generate_summary ex_env asked_state alice
   \<and> llm_calls (snd (generate_summary ex_env asked_state alice)) \<le> llm_calls asked_state + 1
   \<and> \<not> cache_fresh asked_state alice \<and> get_chat_history asked_state alice \<noteq> []
   \<and> \<not> hash_current flaky_env asked_state alice
   \<and> llm flaky_env (llm_calls asked_state) (SummaryPrompt (get_chat_history asked_state alice))
       = None
   \<and> generate_summary flaky_env asked_state alice
       = ([], asked_state\<lparr>llm_calls := llm_calls asked_state + 1\<rparr>)
   \<and> chat_summary_key (snd (generate_summary flaky_env asked_state alice))
       = chat_summary_key asked_state
   \<and> llm_calls (snd (generate_summary flaky_env
        (snd (generate_summary flaky_env asked_state alice)) alice)) = llm_calls asked_state + 2
   \<and> fst (generate_summary flaky_env (snd (generate_summary flaky_env asked_state alice)) alice)
       = or_empty (llm flaky_env (llm_calls asked_state + 1)
           (SummaryPrompt (get_chat_history asked_state alice)))
   \<and> or_empty (llm flaky_env (llm_calls asked_state + 1)
           (SummaryPrompt (get_chat_history asked_state alice))) = ascii ''S''"
  using generate_summary_idempotent [of asked_state alice ex_env]
        generate_summary_idempotent [of asked_state alice flaky_env]
        asked_state_miss [of flaky_env] asked_state_llm
  by blast

lemma add_message_frame:
  "chat_summary_key (add_message e s a r c md) = chat_summary_key s"
  "summary_hash_key (add_message e s a r c md) = summary_hash_key s"
  "llm_calls (add_message e s a r c md) = llm_calls s"
  by (simp_all add: add_message_def save_chat_history_def Let_def)

lemma add_messages_frame:
  "chat_summary_key (add_messages e s a ops) = chat_summary_key s
   \<and> summary_hash_key (add_messages e s a ops) = summary_hash_key s
   \<and> llm_calls (add_messages e s a ops) = llm_calls s"
  by (induction e s a ops rule: add_messages.induct) (simp_all add: add_message_frame)

lemma clear_chat_history_keys:
  "chat_history_key (clear_chat_history s a) a = None"
  "chat_summary_key (clear_chat_history s a) a = None"
  "summary_hash_key (clear_chat_history s a) = summary_hash_key s"
  "user_profile_key (clear_chat_history s a) = user_profile_key s"
  by (simp_all add: clear_chat_history_def)

text \<open>
  C9. \<open>clear_chat_history\<close> deletes the history key and the summary key and leaves the
  hash key. When messages appended after the clear rebuild the history that the stored
  hash was computed from, \<open>generate_summary\<close> finds the hash current and no cached
  summary: it returns the empty text, invokes no model and writes nothing, and the account
  still has no summary.
\<close>

theorem clear_leaves_stale_hash:
  assumes "get_chat_history s a \<noteq> []" and "hash_current e s a"
    and "get_chat_history (add_messages e (clear_chat_history s a) a ops) a = get_chat_history s a"
  shows "chat_history_key (clear_chat_history s a) a = None
         \<and> chat_summary_key (clear_chat_history s a) a = None
         \<and> summary_hash_key (clear_chat_history s a) a = summary_hash_key s a
         \<and> generate_summary e (add_messages e (clear_chat_history s a) a ops) a
             = ([], add_messages e (clear_chat_history s a) a ops)
         \<and> chat_summary_key (add_messages e (clear_chat_history s a) a ops) a = None"
proof -
  let ?s2 = "add_messages e (clear_chat_history s a) a ops"
  have summ: "chat_summary_key ?s2 a = None"
    by (simp add: add_messages_frame clear_chat_history_keys)
  have hash: "summary_hash_key ?s2 a = summary_hash_key s a"
    by (simp add: add_messages_frame clear_chat_history_keys)
  have nofresh: "\<not> cache_fresh ?s2 a"
    by (simp add: cache_fresh_def summ redis_defs)
  have cur: "hash_current e ?s2 a"
    using assms(2,3) by (simp add: hash_current_def hash)
  have hist: "get_chat_history ?s2 a \<noteq> []"
    using assms(1,3) by simp
  have "generate_summary e ?s2 a = (or_empty (redis_get (chat_summary_key ?s2 a)), ?s2)"
    by (rule generate_summary_same_hash [OF nofresh hist cur])
  then have gen: "generate_summary e ?s2 a = ([], ?s2)"
    by (simp add: summ redis_defs)
  from summ gen show ?thesis
    by (simp add: clear_chat_history_keys)
qed

lemma summarised_history: "get_chat_history summarised_state alice = [msg_q, msg_r]"
  by (simp add: get_chat_history_def ex_defs)

lemma readded_history:
  "get_chat_history
     (add_messages ex_env (clear_chat_history summarised_state alice) alice
        [(ascii ''user'', ascii ''Q''), (ascii ''assistant'', ascii ''R'')]) alice
   = [msg_q, msg_r]"
  by (simp add: add_message_def save_chat_history_def get_chat_history_def clear_chat_history_def
      max_history_messages_def ex_defs Let_def)

theorem clear_leaves_stale_hash_witness:
  "get_chat_history summarised_state alice \<noteq> []
   \<and> hash_current ex_env summarised_state alice
   \<and> get_chat_history
       (add_messages ex_env (clear_chat_history summarised_state alice) alice
          [(ascii ''user'', ascii ''Q''), (ascii ''assistant'', ascii ''R'')]) alice
     = get_chat_history summarised_state alice
   \<and> summary_hash_key (clear_chat_history summarised_state alice) alice
     = Some (digest [msg_q, msg_r], 100)
   \<and> fst (generate_summary ex_env
       (add_messages ex_env (clear_chat_history summarised_state alice) alice
          [(ascii ''user'', ascii ''Q''), (ascii ''assistant'', ascii ''R'')]) alice) = []
   \<and> llm_calls (snd (generate_summary ex_env
       (add_messages ex_env (clear_chat_history summarised_state alice) alice
          [(ascii ''user'', ascii ''Q''), (ascii ''assistant'', ascii ''R'')]) alice))
     = llm_calls summarised_state"
proof -
  let ?ops = "[(ascii ''user'', ascii ''Q''), (ascii ''assistant'', ascii ''R'')]"
  have h1: "get_chat_history summarised_state alice \<noteq> []"
    by (simp add: summarised_history)
  have h2: "hash_current ex_env summarised_state alice"
    by (simp add: hash_current_def summarised_history) (simp add: ex_defs redis_defs)
  have h3: "get_chat_history
       (add_messages ex_env (clear_chat_history summarised_state alice) alice ?ops) alice
     = get_chat_history summarised_state alice"
    by (simp only: readded_history summarised_history)
  have k: "summary_hash_key summarised_state alice = Some (digest [msg_q, msg_r], 100)"
    by (simp add: summarised_state_def empty_state_def)
  have c: "llm_calls (add_messages ex_env (clear_chat_history summarised_state alice) alice ?ops)
      = llm_calls summarised_state"
    by (simp only: add_messages_frame) (simp add: clear_chat_history_def)
  from clear_leaves_stale_hash [OF h1 h2 h3] h1 h2 h3 k c show ?thesis
    by simp
qed

lemma get_user_profile_frame:
  "chat_history_key (snd (get_user_profile e s a)) = chat_history_key s"
  "chat_summary_key (snd (get_user_profile e s a)) = chat_summary_key s"
  "summary_hash_key (snd (get_user_profile e s a)) = summary_hash_key s"
  "conv_count_key (snd (get_user_profile e s a)) = conv_count_key s"
  "llm_calls s \<le> llm_calls (snd (get_user_profile e s a))"
  by (simp_all add: get_user_profile_def Let_def split: option.splits)

lemma generate_summary_frame:
  "chat_history_key (snd (generate_summary e s a)) = chat_history_key s"
  "user_profile_key (snd (generate_summary e s a)) = user_profile_key s"
  "conv_count_key (snd (generate_summary e s a)) = conv_count_key s"
  by (simp_all add: generate_summary_def Let_def split: option.splits)

lemma get_conversation_context_state:
  "snd (get_conversation_context e s a strat mt) =
     snd (get_user_profile e (snd (generate_summary e s a)) a)"
  by (simp add: get_conversation_context_def Let_def split_def)

lemma get_conversation_context_hybrid:
  "history (fst (get_conversation_context e s a ''hybrid'' mt)) =
     (if length (get_chat_history s a) > 3 then last_n 3 (get_chat_history s a)
      else get_chat_history s a)"
  "summary (fst (get_conversation_context e s a ''hybrid'' mt)) =
     (if length (get_chat_history s a) > 3 then fst (generate_summary e s a) else [])"
  by (simp_all add: get_conversation_context_def Let_def split_def)

text \<open>
  C4. Under the hybrid strategy the context holds the last 3 messages and the text that
  \<open>generate_summary\<close> returned when the history has more than 3 messages, and the whole
  history with an empty summary otherwise.
\<close>

theorem hybrid_context:
  "history (fst (get_conversation_context e s a ''hybrid'' mt)) =
     (if length (get_chat_history s a) > 3 then last_n 3 (get_chat_history s a)
      else get_chat_history s a)
   \<and> summary (fst (get_conversation_context e s a ''hybrid'' mt)) =
     (if length (get_chat_history s a) > 3 then fst (generate_summary e s a) else [])
   \<and> length (last_n 3 (get_chat_history s a)) = min 3 (length (get_chat_history s a))"
  by (simp add: get_conversation_context_hybrid length_last_n)

lemma long_history: "get_chat_history long_state alice = [msg_q, msg_r, msg_q, msg_r, msg_q]"
  by (simp add: get_chat_history_def long_state_def empty_state_def)

lemma long_summary: "fst (generate_summary ex_env long_state alice) = ascii ''S''"
  by (simp add: generate_summary_def long_history Let_def)
     (simp add: long_state_def empty_state_def ex_env_def redis_defs)

theorem hybrid_context_witness:
  "history (fst (get_conversation_context ex_env long_state alice ''hybrid'' 1000))
     = [msg_q, msg_r, msg_q]
   \<and> summary (fst (get_conversation_context ex_env long_state alice ''hybrid'' 1000))
     = ascii ''S''
   \<and> history (fst (get_conversation_context ex_env summarised_state alice ''hybrid'' 1000))
     = [msg_q, msg_r]
   \<and> summary (fst (get_conversation_context ex_env summarised_state alice ''hybrid'' 1000))
     = []"
  using hybrid_context [of ex_env long_state alice 1000]
        hybrid_context [of ex_env summarised_state alice 1000]
  by (simp add: long_history long_summary summarised_history last_n_def)

text \<open>
  C10. Whatever the strategy, the state after context assembly is the state after
  \<open>generate_summary\<close> followed by \<open>get_user_profile\<close>. The strategies \<open>full\<close> and
  \<open>window\<close> return an empty summary all the same; and when the summary has to be generated and
  the model answers, the summary key and the hash key are written and the model has been
  invoked, under every strategy.
\<close>

theorem context_generates_summary_first:
  "snd (get_conversation_context e s a strat mt) =
     snd (get_user_profile e (snd (generate_summary e s a)) a)
   \<and> (strat = ''full'' \<or> strat = ''window'' \<longrightarrow>
        summary (fst (get_conversation_context e s a strat mt)) = [])
   \<and> (\<not> cache_fresh s a \<and> get_chat_history s a \<noteq> [] \<and> \<not> hash_current e s a
        \<and> llm e (llm_calls s) (SummaryPrompt (get_chat_history s a)) = Some t \<longrightarrow>
        chat_summary_key (snd (get_conversation_context e s a strat mt)) a
          = Some (t, summary_ttl)
        \<and> summary_hash_key (snd (get_conversation_context e s a strat mt)) a
          = Some (md5_json e (get_chat_history s a), summary_ttl)
        \<and> llm_calls s < llm_calls (snd (get_conversation_context e s a strat mt)))"
proof -
  have empty: "strat = ''full'' \<or> strat = ''window'' \<longrightarrow>
        summary (fst (get_conversation_context e s a strat mt)) = []"
    by (auto simp add: get_conversation_context_def Let_def split_def)
  have written: "chat_summary_key (snd (get_conversation_context e s a strat mt)) a
          = Some (t, summary_ttl)
        \<and> summary_hash_key (snd (get_conversation_context e s a strat mt)) a
          = Some (md5_json e (get_chat_history s a), summary_ttl)
        \<and> llm_calls s < llm_calls (snd (get_conversation_context e s a strat mt))"
    if m: "\<not> cache_fresh s a" "get_chat_history s a \<noteq> []" "\<not> hash_current e s a"
      and t: "llm e (llm_calls s) (SummaryPrompt (get_chat_history s a)) = Some t"
  proof -
    let ?g = "snd (generate_summary e s a)"
    have g: "chat_summary_key ?g a = Some (t, summary_ttl)"
        "summary_hash_key ?g a = Some (md5_json e (get_chat_history s a), summary_ttl)"
        "llm_calls ?g = llm_calls s + 1"
      using generate_summary_miss [OF m] t by simp_all
    have "llm_calls ?g \<le> llm_calls (snd (get_user_profile e ?g a))"
      by (rule get_user_profile_frame)
    with g show ?thesis
      by (simp add: get_conversation_context_state get_user_profile_frame)
  qed
  from empty written show ?thesis
    by (simp add: get_conversation_context_state)
qed

lemma long_state_miss:
  "\<not> cache_fresh long_state alice" "get_chat_history long_state alice \<noteq> []"
  "\<not> hash_current ex_env long_state alice"
  "llm ex_env (llm_calls long_state) (SummaryPrompt (get_chat_history long_state alice))
     = Some (ascii ''S'')"
  by (simp_all add: cache_fresh_def hash_current_def long_history)
     (simp_all add: long_state_def empty_state_def ex_env_def redis_defs)

theorem context_generates_summary_first_witness:
  "\<not> cache_fresh long_state alice \<and> get_chat_history long_state alice \<noteq> []
   \<and> \<not> hash_current ex_env long_state alice
   \<and> summary (fst (get_conversation_context ex_env long_state alice ''full'' 1000)) = []
   \<and> chat_summary_key long_state alice = None
   \<and> chat_summary_key (snd (get_conversation_context ex_env long_state alice ''full'' 1000)) alice
       = Some (ascii ''S'', summary_ttl)
   \<and> summary_hash_key (snd (get_conversation_context ex_env long_state alice ''full'' 1000)) alice
       = Some (md5_json ex_env (get_chat_history long_state alice), summary_ttl)
   \<and> llm_calls long_state
       < llm_calls (snd (get_conversation_context ex_env long_state alice ''full'' 1000))"
proof -
  have k: "chat_summary_key long_state alice = None"
    by (simp add: long_state_def empty_state_def)
  from context_generates_summary_first
         [of ex_env long_state alice "''full''" 1000 "ascii ''S''"]
       long_state_miss k
  show ?thesis by blast
qed

lemma generate_summary_count:
  "generate_summary e (s\<lparr>conv_count_key := k\<rparr>) a =
     (fst (generate_summary e s a), (snd (generate_summary e s a))\<lparr>conv_count_key := k\<rparr>)"
  by (simp add: generate_summary_def get_chat_history_def Let_def split: option.splits)

lemma update_conversation_summary_skip:
  assumes "redis_incr (conv_count_key s a) = Some c" and "c mod 5 \<noteq> 0"
  shows "update_conversation_summary e s a False =
           (or_empty (redis_get (chat_summary_key s a)),
            s\<lparr>conv_count_key := (conv_count_key s)(a \<mapsto> c)\<rparr>)"
  using assms by (simp add: update_conversation_summary_def summary_update_threshold_def Let_def)

lemma update_conversation_summary_due:
  assumes "redis_incr (conv_count_key s a) = Some c" and "c mod 5 = 0"
  shows "update_conversation_summary e s a False =
           (fst (generate_summary e s a),
            (snd (generate_summary e s a))
              \<lparr>conv_count_key := (conv_count_key s)(a \<mapsto> (if c \<ge> 100 then 0 else c))\<rparr>)"
  using assms
  by (simp add: update_conversation_summary_def summary_update_threshold_def Let_def
      generate_summary_count)

text \<open>
  What the maintenance call does, with \<open>c\<close> the counter after the increment. When \<open>c\<close> is
  no multiple of 5 the stored summary text (empty if there is none) is returned and only
  the counter changes. When \<open>c\<close> is a multiple of 5 the result is that of
  \<open>generate_summary\<close>, and the counter goes back to 0 once it has reached 100.
\<close>

lemma update_conversation_summary_cadence:
  assumes "redis_incr (conv_count_key s a) = Some c"
  shows "(c mod 5 \<noteq> 0 \<longrightarrow>
            update_conversation_summary e s a False =
              (or_empty (redis_get (chat_summary_key s a)),
               s\<lparr>conv_count_key := (conv_count_key s)(a \<mapsto> c)\<rparr>))
         \<and> (c mod 5 = 0 \<longrightarrow>
            fst (update_conversation_summary e s a False) = fst (generate_summary e s a)
            \<and> chat_summary_key (snd (update_conversation_summary e s a False))
                = chat_summary_key (snd (generate_summary e s a))
            \<and> summary_hash_key (snd (update_conversation_summary e s a False))
                = summary_hash_key (snd (generate_summary e s a))
            \<and> llm_calls (snd (update_conversation_summary e s a False)) =
                (if cache_fresh s a \<or> get_chat_history s a = [] \<or> hash_current e s a
                 then llm_calls s else llm_calls s + 1)
            \<and> conv_count_key (snd (update_conversation_summary e s a False)) a
                = Some (if c \<ge> 100 then 0 else c))"
proof (cases "c mod 5 = 0")
  case True
  from update_conversation_summary_due [OF assms True, of e] True show ?thesis
    by (simp add: generate_summary_calls)
next
  case False
  from update_conversation_summary_skip [OF assms False, of e] False show ?thesis
    by simp
qed

text \<open>
  C3. The fifth turn of an account whose summary is cached with time to live left and
  whose history has changed since: the counter reaches 5 and the refresh branch is taken,
  but the cached text comes back, the model is not invoked and neither the summary nor the
  hash is rewritten. Forcing the update changes nothing of this.
\<close>

theorem fifth_turn_refreshes_nothing:
  "redis_incr (conv_count_key fifth_turn_state alice) = Some 5
   \<and> \<not> hash_current ex_env fifth_turn_state alice
   \<and> fst (update_conversation_summary ex_env fifth_turn_state alice False) = ascii ''old''
   \<and> llm_calls (snd (update_conversation_summary ex_env fifth_turn_state alice False))
       = llm_calls fifth_turn_state
   \<and> chat_summary_key (snd (update_conversation_summary ex_env fifth_turn_state alice False))
       = chat_summary_key fifth_turn_state
   \<and> summary_hash_key (snd (update_conversation_summary ex_env fifth_turn_state alice False))
       = summary_hash_key fifth_turn_state
   \<and> fst (update_conversation_summary ex_env fifth_turn_state alice True) = ascii ''old''
   \<and> llm_calls (snd (update_conversation_summary ex_env fifth_turn_state alice True))
       = llm_calls fifth_turn_state"
  by (simp add: update_conversation_summary_def redis_incr_def summary_update_threshold_def
      generate_summary_def hash_current_def get_chat_history_def fifth_turn_state_def
      ex_defs redis_defs ascii_def Let_def)

lemma fifth_turn_facts:
  "redis_incr (conv_count_key fifth_turn_state alice) = Some 5"
  "cache_fresh fifth_turn_state alice"
  "fst (generate_summary ex_env fifth_turn_state alice) = ascii ''old''"
  by (simp_all add: redis_incr_def cache_fresh_def generate_summary_def fifth_turn_state_def
      ex_defs redis_defs ascii_def Let_def)

lemma first_turn_facts:
  "redis_incr (conv_count_key stale_state alice) = Some 1"
  "or_empty (redis_get (chat_summary_key stale_state alice)) = ascii ''old''"
  by (simp_all add: redis_incr_def ex_defs redis_defs)

lemma update_conversation_summary_cadence_examples:
  "redis_incr (conv_count_key fifth_turn_state alice) = Some 5
   \<and> fst (update_conversation_summary ex_env fifth_turn_state alice False) = ascii ''old''
   \<and> llm_calls (snd (update_conversation_summary ex_env fifth_turn_state alice False))
       = llm_calls fifth_turn_state
   \<and> conv_count_key (snd (update_conversation_summary ex_env fifth_turn_state alice False)) alice
       = Some 5
   \<and> redis_incr (conv_count_key stale_state alice) = Some 1
   \<and> update_conversation_summary ex_env stale_state alice False
       = (ascii ''old'', stale_state\<lparr>conv_count_key := (conv_count_key stale_state)(alice \<mapsto> 1)\<rparr>)"
  using update_conversation_summary_cadence [OF fifth_turn_facts(1), of ex_env]
        update_conversation_summary_cadence [OF first_turn_facts(1), of ex_env]
        fifth_turn_facts first_turn_facts
  by simp

lemma turn_assembled_frame:
  "chat_history_key (turn_assembled e s a) = chat_history_key s"
  "conv_count_key (turn_assembled e s a) = conv_count_key s"
  by (simp_all add: turn_assembled_def get_conversation_context_state get_user_profile_frame
      generate_summary_frame)

lemma chat_with_legal_agent_unfold:
  "chat_with_legal_agent e agent s a inp =
     (let chunks = fst (agent (turn_agent_input e s a inp));
          s2 = turn_assembled e s a in
      case snd (agent (turn_agent_input e s a inp)) of
        Exhausted \<Rightarrow>
          if output_tokens chunks \<noteq> [] then
            \<lparr>yielded = output_tokens chunks, ending = Returned,
             scheduled =
               [SaveConversation a inp (concat (output_tokens chunks))
                  \<lparr>tool_calls = intermediate_steps chunks,
                   context_used = fst (get_conversation_context e s a ''hybrid'' 1000),
                   md_timestamp = now_iso e (clock s2)\<rparr>,
                UpdateConversationSummary a],
             store = s2\<lparr>clock := clock s2 + 1\<rparr>\<rparr>
          else \<lparr>yielded = [], ending = Returned, scheduled = [], store = s2\<rparr>
      | RaisedTimeout \<Rightarrow>
          \<lparr>yielded = output_tokens chunks @ [timeout_message], ending = Returned,
           scheduled = [], store = s2\<rparr>
      | RaisedException err \<Rightarrow>
          if str_contains (ascii ''rate limit'') (str_lower err) then
            \<lparr>yielded = output_tokens chunks @ [busy_message], ending = Returned,
             scheduled = [], store = s2\<rparr>
          else if str_contains (ascii ''context length'') (str_lower err) then
            \<lparr>yielded = output_tokens chunks, ending = Raised TypeError,
             scheduled = [], store = clear_chat_history s2 a\<rparr>
          else
            \<lparr>yielded = output_tokens chunks @ [failed_message], ending = Returned,
             scheduled = [], store = s2\<rparr>)"
  by (simp add: chat_with_legal_agent_def turn_agent_input_def turn_assembled_def Let_def
      split_def)

lemma chat_timeout:
  assumes "agent (turn_agent_input e s a inp) = (chunks, RaisedTimeout)"
  shows "chat_with_legal_agent e agent s a inp =
           \<lparr>yielded = output_tokens chunks @ [timeout_message], ending = Returned,
            scheduled = [], store = turn_assembled e s a\<rparr>"
  using assms by (simp add: chat_with_legal_agent_unfold)

lemma chat_context_length:
  assumes "agent (turn_agent_input e s a inp) = (chunks, RaisedException err)"
    and "\<not> str_contains (ascii ''rate limit'') (str_lower err)"
    and "str_contains (ascii ''context length'') (str_lower err)"
  shows "chat_with_legal_agent e agent s a inp =
           \<lparr>yielded = output_tokens chunks, ending = Raised TypeError,
            scheduled = [], store = clear_chat_history (turn_assembled e s a) a\<rparr>"
  using assms by (simp add: chat_with_legal_agent_unfold)

text \<open>
  C8, as the code has it. When the agent times out, the apology is yielded once, after the
  tokens already yielded, so it is the whole output when the timeout comes before any
  output token. The generator returns, nothing is scheduled, and neither the history nor
  the turn counter of any account is changed.
\<close>

theorem timeout_turn:
  assumes "agent (turn_agent_input e s a inp) = (chunks, RaisedTimeout)"
  shows "yielded (chat_with_legal_agent e agent s a inp) = output_tokens chunks @ [timeout_message]
         \<and> (output_tokens chunks = [] \<longrightarrow>
              yielded (chat_with_legal_agent e agent s a inp) = [timeout_message])
         \<and> ending (chat_with_legal_agent e agent s a inp) = Returned
         \<and> scheduled (chat_with_legal_agent e agent s a inp) = []
         \<and> run_scheduled e (chat_with_legal_agent e agent s a inp)
             = store (chat_with_legal_agent e agent s a inp)
         \<and> chat_history_key (store (chat_with_legal_agent e agent s a inp)) = chat_history_key s
         \<and> conv_count_key (store (chat_with_legal_agent e agent s a inp)) = conv_count_key s"
  using chat_timeout [where agent = agent and e = e and s = s and a = a and inp = inp
      and chunks = chunks] assms
  by (simp add: run_scheduled_def turn_assembled_frame)

theorem timeout_turn_witness:
  "stalled_agent (turn_agent_input ex_env asked_state alice (ascii ''hi'')) = ([], RaisedTimeout)
   \<and> yielded (chat_with_legal_agent ex_env stalled_agent asked_state alice (ascii ''hi''))
       = [timeout_message]
   \<and> scheduled (chat_with_legal_agent ex_env stalled_agent asked_state alice (ascii ''hi'')) = []
   \<and> chat_history_key (store (chat_with_legal_agent ex_env stalled_agent asked_state alice
        (ascii ''hi''))) = chat_history_key asked_state"
proof -
  have h: "stalled_agent (turn_agent_input ex_env asked_state alice (ascii ''hi''))
      = ([], RaisedTimeout)"
    by (simp add: stalled_agent_def)
  from timeout_turn [where agent = stalled_agent and e = ex_env and s = asked_state
      and a = alice and inp = "ascii ''hi''" and chunks = "[]"] h
  show ?thesis by simp
qed

text \<open>
  A timeout after a first output chunk: the output is that token followed by the apology.
\<close>

theorem timeout_after_output_counterexample:
  "yielded (chat_with_legal_agent ex_env late_timeout_agent asked_state alice (ascii ''hi''))
     = [ascii ''A'', timeout_message]
   \<and> yielded (chat_with_legal_agent ex_env late_timeout_agent asked_state alice (ascii ''hi''))
     \<noteq> [timeout_message]"
  by (simp add: chat_with_legal_agent_unfold late_timeout_agent_def)

lemma lower_overflow:
  "str_lower (ascii ''context length exceeded'') = ascii ''context length exceeded''"
  by (simp add: str_lower_def ascii_def)

lemma overflow_is_context_length:
  "\<not> str_contains (ascii ''rate limit'') (str_lower (ascii ''context length exceeded''))"
  "str_contains (ascii ''context length'') (str_lower (ascii ''context length exceeded''))"
  by (simp_all add: lower_overflow) (simp_all add: ascii_def)

text \<open>
  C1. A provider failure whose message contains \<open>context length\<close>: the history is cleared,
  but \<open>TypeError\<close> escapes the generator, no message is yielded, and the streamed response
  carries no frame and no end marker.
\<close>

theorem context_overflow_escapes:
  "yielded (chat_with_legal_agent ex_env overflow_agent summarised_state alice (ascii ''hi'')) = []
   \<and> ending (chat_with_legal_agent ex_env overflow_agent summarised_state alice (ascii ''hi''))
       = Raised TypeError
   \<and> get_chat_history
       (store (chat_with_legal_agent ex_env overflow_agent summarised_state alice (ascii ''hi'')))
       alice = []
   \<and> generate_stream_response dump_data ex_env overflow_agent summarised_state alice (ascii ''hi'')
       = ([], Raised TypeError)"
proof -
  have h: "overflow_agent (turn_agent_input ex_env summarised_state alice (ascii ''hi''))
      = ([], RaisedException (ascii ''context length exceeded''))"
    by (simp add: overflow_agent_def)
  have t: "chat_with_legal_agent ex_env overflow_agent summarised_state alice (ascii ''hi'') =
      \<lparr>yielded = [], ending = Raised TypeError, scheduled = [],
       store = clear_chat_history (turn_assembled ex_env summarised_state alice) alice\<rparr>"
    using chat_context_length [where agent = overflow_agent and e = ex_env
        and s = summarised_state and a = alice and inp = "ascii ''hi''" and chunks = "[]"
        and err = "ascii ''context length exceeded''"] h overflow_is_context_length
    by simp
  have c: "get_chat_history (clear_chat_history (turn_assembled ex_env summarised_state alice) alice)
      alice = []"
    by (simp add: get_chat_history_def clear_chat_history_keys)
  have w: "sse_stream dump_data [] (Raised TypeError) = []"
    by (simp add: sse_stream_def stream_payloads_def)
  from t c w show ?thesis
    by (simp add: generate_stream_response_def Let_def)
qed

lemma punctuation_nonempty: "p \<in> set punctuation \<Longrightarrow> p \<noteq> []"
  by (auto simp add: punctuation_def)

lemma coalesce_emit:
  "token \<in> set punctuation \<or> length (cur @ token) \<ge> 10 \<Longrightarrow>
     coalesce cur (token # tokens) =
       (stream_data (cur @ token) # fst (coalesce [] tokens), snd (coalesce [] tokens))"
  by (simp add: Let_def split_def)

lemma coalesce_hold:
  "\<not> (token \<in> set punctuation \<or> length (cur @ token) \<ge> 10) \<Longrightarrow>
     coalesce cur (token # tokens) = coalesce (cur @ token) tokens"
  by (simp add: Let_def)

lemma coalesce_concat:
  "concat (map (\<lambda>j. or_empty (data j)) (fst (coalesce cur tokens))) @ snd (coalesce cur tokens)
     = cur @ concat tokens"
proof (induction cur tokens rule: coalesce.induct)
  case (1 current_chunk)
  show ?case by simp
next
  case (2 current_chunk token tokens)
  show ?case
  proof (cases "token \<in> set punctuation \<or> length (current_chunk @ token) \<ge> 10")
    case True
    with 2 show ?thesis
      by (simp add: coalesce_emit stream_data_def or_empty_def del: coalesce.simps)
  next
    case False
    with 2 show ?thesis
      by (simp add: coalesce_hold del: coalesce.simps)
  qed
qed

lemma coalesce_frames:
  "j \<in> set (fst (coalesce cur tokens)) \<Longrightarrow>
     code j = 0 \<and> msg j = Some [] \<and> type j = Stream \<and> data j \<noteq> None \<and> data j \<noteq> Some []
     \<and> (length (or_empty (data j)) \<ge> 10
         \<or> (\<exists>p \<in> set punctuation. \<exists>pre. or_empty (data j) = pre @ p))"
proof (induction cur tokens rule: coalesce.induct)
  case (1 current_chunk)
  then show ?case by simp
next
  case (2 current_chunk token tokens)
  show ?case
  proof (cases "token \<in> set punctuation \<or> length (current_chunk @ token) \<ge> 10")
    case True
    from 2(3) True have "j = stream_data (current_chunk @ token) \<or> j \<in> set (fst (coalesce [] tokens))"
      by (simp add: coalesce_emit del: coalesce.simps)
    then show ?thesis
    proof
      assume j: "j = stream_data (current_chunk @ token)"
      from True have ne: "current_chunk @ token \<noteq> []"
        using punctuation_nonempty [of token] by auto
      from True have "length (current_chunk @ token) \<ge> 10
          \<or> (\<exists>p \<in> set punctuation. \<exists>pre. current_chunk @ token = pre @ p)"
        by blast
      with j ne show ?thesis
        by (simp add: stream_data_def or_empty_def)
    next
      assume "j \<in> set (fst (coalesce [] tokens))"
      with 2(1) True show ?thesis by simp
    qed
  next
    case False
    with 2(3) have "j \<in> set (fst (coalesce (current_chunk @ token) tokens))"
      by (simp add: coalesce_hold del: coalesce.simps)
    with 2(2) False show ?thesis by simp
  qed
qed

lemma coalesce_rest_short:
  "length cur < 10 \<Longrightarrow> length (snd (coalesce cur tokens)) < 10"
proof (induction cur tokens rule: coalesce.induct)
  case (1 current_chunk)
  then show ?case by simp
next
  case (2 current_chunk token tokens)
  show ?case
  proof (cases "token \<in> set punctuation \<or> length (current_chunk @ token) \<ge> 10")
    case True
    with 2(1) show ?thesis
      by (simp add: coalesce_emit del: coalesce.simps)
  next
    case False
    with 2(2) show ?thesis
      by (simp add: coalesce_hold del: coalesce.simps)
  qed
qed

lemma stream_payloads_returned:
  "stream_payloads tokens Returned =
     fst (coalesce [] tokens)
     @ (if snd (coalesce [] tokens) \<noteq> [] then [stream_data (snd (coalesce [] tokens))] else [])"
  by (simp add: stream_payloads_def split_def Let_def)

lemma stream_payloads_concat:
  "concat (map (\<lambda>j. or_empty (data j)) (stream_payloads tokens Returned)) = concat tokens"
proof (cases "snd (coalesce [] tokens) = []")
  case True
  with coalesce_concat [of "[]" tokens] show ?thesis
    by (simp add: stream_payloads_returned)
next
  case False
  with coalesce_concat [of "[]" tokens] show ?thesis
    by (simp add: stream_payloads_returned stream_data_def or_empty_def)
qed

lemma stream_payloads_fields:
  "j \<in> set (stream_payloads tokens Returned) \<Longrightarrow>
     code j = 0 \<and> msg j = Some [] \<and> type j = Stream \<and> data j \<noteq> None \<and> data j \<noteq> Some []"
  using coalesce_frames [of j "[]" tokens]
  by (auto simp add: stream_payloads_returned stream_data_def split: if_splits)

text \<open>
  C7, as the code has it. For a token sequence whose generator returns, the wire output is
  one frame per payload followed by the end marker, which is its last element. Every
  payload has code 0, an empty message, type \<open>Stream\<close> and non-empty data, and the data
  concatenated are the tokens concatenated. The loop emits the accumulated chunk when the
  token just read is itself a punctuation mark or the chunk has reached 10 code points, and
  holds it back otherwise; so every frame of the loop has 10 code points or more or ends in
  a punctuation mark, and the chunk flushed at the end has fewer than 10.
\<close>

theorem sse_stream_returned:
  "sse_stream dump tokens Returned =
     map (sse_frame dump) (stream_payloads tokens Returned) @ [done_frame]
   \<and> last (sse_stream dump tokens Returned) = done_frame
   \<and> (\<forall>j \<in> set (stream_payloads tokens Returned).
        code j = 0 \<and> msg j = Some [] \<and> type j = Stream \<and> data j \<noteq> None \<and> data j \<noteq> Some [])
   \<and> concat (map (\<lambda>j. or_empty (data j)) (stream_payloads tokens Returned)) = concat tokens
   \<and> stream_payloads tokens Returned =
       fst (coalesce [] tokens)
       @ (if snd (coalesce [] tokens) \<noteq> [] then [stream_data (snd (coalesce [] tokens))] else [])
   \<and> (\<forall>j \<in> set (fst (coalesce [] tokens)).
        length (or_empty (data j)) \<ge> 10
        \<or> (\<exists>p \<in> set punctuation. \<exists>pre. or_empty (data j) = pre @ p))
   \<and> length (snd (coalesce [] tokens)) < 10
   \<and> (\<forall>cur token rest.
        coalesce cur (token # rest) =
          (if token \<in> set punctuation \<or> length (cur @ token) \<ge> 10
           then (stream_data (cur @ token) # fst (coalesce [] rest), snd (coalesce [] rest))
           else coalesce (cur @ token) rest))"
proof -
  have a: "sse_stream dump tokens Returned =
     map (sse_frame dump) (stream_payloads tokens Returned) @ [done_frame]"
    by (simp add: sse_stream_def)
  have b: "last (sse_stream dump tokens Returned) = done_frame"
    by (simp add: a)
  have c: "\<forall>j \<in> set (stream_payloads tokens Returned).
        code j = 0 \<and> msg j = Some [] \<and> type j = Stream \<and> data j \<noteq> None \<and> data j \<noteq> Some []"
    using stream_payloads_fields by blast
  have d: "\<forall>j \<in> set (fst (coalesce [] tokens)).
        length (or_empty (data j)) \<ge> 10
        \<or> (\<exists>p \<in> set punctuation. \<exists>pre. or_empty (data j) = pre @ p)"
    using coalesce_frames by blast
  have f: "length (snd (coalesce [] tokens)) < 10"
    by (rule coalesce_rest_short) simp
  have g: "\<forall>cur token rest.
        coalesce cur (token # rest) =
          (if token \<in> set punctuation \<or> length (cur @ token) \<ge> 10
           then (stream_data (cur @ token) # fst (coalesce [] rest), snd (coalesce [] rest))
           else coalesce (cur @ token) rest)"
    by (simp add: Let_def split_def)
  from a b c d f g stream_payloads_concat [of tokens] stream_payloads_returned [of tokens]
  show ?thesis by blast
qed

lemma ex_payloads:
  "stream_payloads [[22909, 12290], [20320], [12290]] Returned
     = [stream_data [22909, 12290, 20320, 12290]]"
  by (simp add: stream_payloads_def punctuation_def Let_def)

theorem sse_stream_returned_witness:
  "stream_payloads [[22909, 12290], [20320], [12290]] Returned
     = [stream_data [22909, 12290, 20320, 12290]]
   \<and> sse_stream dump_data [[22909, 12290], [20320], [12290]] Returned
     = [ascii ''data: '' @ [22909, 12290, 20320, 12290] @ [10, 10], done_frame]
   \<and> last (sse_stream dump_data [[22909, 12290], [20320], [12290]] Returned) = done_frame
   \<and> [12290] \<in> set punctuation
   \<and> type (stream_data [22909, 12290, 20320, 12290]) = Stream
   \<and> concat (map (\<lambda>j. or_empty (data j))
        (stream_payloads [[22909, 12290], [20320], [12290]] Returned))
     = concat [[22909, 12290], [20320], [12290]]"
  using sse_stream_returned [of dump_data "[[22909, 12290], [20320], [12290]]"]
  by (simp add: ex_payloads sse_frame_def dump_data_def stream_data_def or_empty_def
      punctuation_def)

text \<open>
  A token of two code points that ends in a punctuation mark: the accumulated chunk ends in
  punctuation and is held back; the specification's re-chunker would emit it.
\<close>

theorem chunk_ending_in_punctuation_counterexample:
  "ends_in_punctuation [22909, 12290]
   \<and> stream_payloads [[22909, 12290], [20320]] Returned = [stream_data [22909, 12290, 20320]]
   \<and> stream_payloads_spec [[22909, 12290], [20320]]
       = [stream_data [22909, 12290], stream_data [20320]]
   \<and> stream_payloads [[22909, 12290], [20320]] Returned
       \<noteq> stream_payloads_spec [[22909, 12290], [20320]]"
  by (simp add: stream_payloads_def stream_payloads_spec_def ends_in_punctuation_def
      punctuation_def Let_def)

end
